theory Spec2Isabelle
  imports Complex_Main
begin

section \<open>Viral Arcade: the game component of ViralArcade.jsx\<close>

text \<open>
  The component keeps its game state in React state cells and refs. A handler reads the
  cells through the closure of the render that created it and writes them through
  setters, most of them functional updaters that are applied, in call order, to the
  pending value. The embedding therefore gives every handler two states: \<open>r\<close>, the
  values of the render the handler closes over, and \<open>s\<close>, the pending state the setters
  update. JavaScript numbers are idealised: integer-valued cells (score, best, combo) are
  \<open>int\<close>, the others \<open>real\<close>; NaN and the infinities are outside the model. A badge
  label is the medal sign followed by its threshold, so a badge is modelled by the
  threshold. The audio cues do not touch the state and are left out. The flag
  \<open>dragging\<close> is the local variable of the input effect. The cells \<open>loopMult\<close>,
  \<open>loopCombo\<close> and \<open>loopBadges\<close> hold what the game-loop effect's closure sees of the
  three cells that are not among its dependencies, and \<open>stored\<close> is the entry of the
  browser's local storage under the key of the best score.
\<close>

subsection \<open>Helpers\<close>

definition clamp :: "real \<Rightarrow> real \<Rightarrow> real \<Rightarrow> real" where
  "clamp v a b = max a (min b v)"

definition rand :: "real \<Rightarrow> real \<Rightarrow> real \<Rightarrow> real" where
  \<comment> \<open>\<open>rand(a, b)\<close> with the value \<open>u\<close> that \<open>Math.random()\<close> returns\<close>
  "rand a b u = a + u * (b - a)"

definition js_round :: "real \<Rightarrow> int" where
  \<comment> \<open>\<open>Math.round\<close>: the nearest integer, a tie going up\<close>
  "js_round v = \<lfloor>v + 1 / 2\<rfloor>"

definition toFixed1 :: "real \<Rightarrow> real" where
  \<comment> \<open>\<open>Number(m.toFixed(1))\<close>: one decimal, a tie going away from zero\<close>
  "toFixed1 v = (if v < 0 then - (of_int \<lfloor>(- v) * 10 + 1 / 2\<rfloor> / 10)
                 else of_int \<lfloor>v * 10 + 1 / 2\<rfloor> / 10)"

definition hypot :: "real \<Rightarrow> real \<Rightarrow> real" where
  "hypot a b = sqrt (a * a + b * b)"

subsection \<open>Data\<close>

record vec =
  xc :: real
  yc :: real

definition dist2 :: "vec \<Rightarrow> vec \<Rightarrow> real" where
  "dist2 a b = (let dx = xc a - xc b; dy = yc a - yc b in dx * dx + dy * dy)"

datatype kind = Good | Bad | Power

record orb =
  orb_id :: int
  kind :: kind
  pos :: vec
  vel :: vec
  orb_radius :: real
  bornAt :: real
  ttl :: real
  spin :: real

datatype storage = NoEntry | Unparseable | Entry int
  \<comment> \<open>the text stored under \<open>viral_arcade_best\<close>, by what lines 36 and 37 make of it:
      missing or empty, a text on which \<open>JSON.parse\<close> throws, or the text of an integer
      (what \<open>JSON.stringify\<close> writes for the best score)\<close>

definition loadStored :: "int \<Rightarrow> storage \<Rightarrow> int" where
  \<comment> \<open>lines 34 to 41: the stored value, or \<open>initial\<close> when there is none or it does not parse\<close>
  "loadStored initial_value st =
     (case st of NoEntry \<Rightarrow> initial_value | Unparseable \<Rightarrow> initial_value | Entry n \<Rightarrow> n)"

definition saveStored :: "bool \<Rightarrow> int \<Rightarrow> storage \<Rightarrow> storage" where
  \<comment> \<open>lines 42 to 46: \<open>setItem\<close> writes the value, or throws (\<open>written\<close> is false) and is
      ignored\<close>
  "saveStored written v st = (if written then Entry v else st)"

record state =
  running :: bool
  paused :: bool
  score :: int
  best :: int
  combo :: int
  mult :: real
  streak :: real
  sound :: bool
  slowmo :: real
  magnet :: real
  x2 :: real
  flash :: "string option"
  badges :: "int list"
  player :: vec
  radius :: real
  orbs :: "orb list"
  idRef :: int
  lastTs :: "real option"
  seed :: int
  dragging :: bool
  loopMult :: real
  loopCombo :: int
  loopBadges :: "int list"
  stored :: storage

definition initial :: "storage \<Rightarrow> state" where
  \<comment> \<open>the component after mounting, with \<open>st\<close> in the local storage: the \<open>useState\<close> and
      \<open>useRef\<close> initial values, the best score as \<open>useLocalStorage\<close> loads it\<close>
  "initial st = \<lparr> running = False, paused = False, score = 0, best = loadStored 0 st,
     combo = 0, mult = 1, streak = 0, sound = True, slowmo = 0, magnet = 0, x2 = 0,
     flash = None, badges = [], player = \<lparr> xc = 1 / 2, yc = 1 / 2 \<rparr>, radius = 18,
     orbs = [], idRef = 1, lastTs = None, seed = 0, dragging = False,
     loopMult = 1, loopCombo = 0, loopBadges = [], stored = st \<rparr>"

record difficulty_rec =
  spawnRate :: real
  speed :: real
  badShare :: real
  powerChance :: real

definition difficulty :: "state \<Rightarrow> difficulty_rec" where
  "difficulty r = (let t = min 1 (of_int (score r) / 5000) in
     \<lparr> spawnRate = 9 / 10 + t * (22 / 10), speed = 70 + t * 170,
       badShare = 35 / 100 + t * (25 / 100), powerChance = 8 / 100 + t * (5 / 100) \<rparr>)"

subsection \<open>Collecting an orb\<close>

definition toast :: "string \<Rightarrow> (state \<Rightarrow> state) \<Rightarrow> state \<Rightarrow> state" where
  \<comment> \<open>\<open>setFlash(msg); run?.()\<close>; the timeout that clears the notice is the event \<open>FlashTimeout\<close>\<close>
  "toast msg run s = run (s\<lparr>flash := Some msg\<rparr>)"

definition milestones :: "int list" where
  "milestones = [200, 600, 1200, 2500, 4000, 6000]"

fun award :: "state \<Rightarrow> int list \<Rightarrow> state \<Rightarrow> state" where
  "award r [] s = s"
| "award r (m # ms) s =
     award r ms (if score r < m \<and> score r + 1 \<ge> m \<and> m \<notin> set (badges r)
                 then s\<lparr>badges := badges s @ [m]\<rparr> else s)"

definition collectGood :: "state \<Rightarrow> state \<Rightarrow> state" where
  "collectGood r s =
    (let inc = js_round (10 * mult r * (if x2 r > 0 then 2 else 1));
         s1 = s\<lparr>score := score s + inc\<rparr>;
         s2 = s1\<lparr>combo := combo s1 + 1\<rparr>;
         s3 = s2\<lparr>streak := min 100 (streak s2 + 5)\<rparr>;
         s4 = (if combo r + 1 = 10 then toast ''x2 Active!'' (\<lambda>t. t\<lparr>x2 := 4000\<rparr>) s3 else s3);
         s5 = (if (combo r + 1) mod 15 = 0 then toast ''SLOW-MO!'' (\<lambda>t. t\<lparr>slowmo := 3000\<rparr>) s4 else s4);
         s6 = (if (combo r + 1) mod 20 = 0 then toast ''MAGNET!'' (\<lambda>t. t\<lparr>magnet := 4000\<rparr>) s5 else s5)
     in s6)"

definition collectPower :: "real \<Rightarrow> state \<Rightarrow> state" where
  "collectPower choice s =
    (if choice < 34 / 100 then toast ''Slow Motion'' (\<lambda>t. t\<lparr>slowmo := 3500\<rparr>) s
     else if choice < 67 / 100 then toast ''Magnet Field'' (\<lambda>t. t\<lparr>magnet := 5000\<rparr>) s
     else toast ''Score x2'' (\<lambda>t. t\<lparr>x2 := 6000\<rparr>) s)"

definition handleCollect :: "state \<Rightarrow> orb \<Rightarrow> real \<Rightarrow> state \<Rightarrow> state" where
  \<comment> \<open>\<open>choice\<close> is the value of the \<open>Math.random()\<close> call of the power branch\<close>
  "handleCollect r ob choice s =
     award r milestones
       (if kind ob = Good then collectGood r s
        else if kind ob = Power then collectPower choice s
        else s)"

subsection \<open>Starting and ending a run\<close>

definition startGame :: "state \<Rightarrow> state" where
  "startGame s = s\<lparr> score := 0, combo := 0, mult := 1, streak := 0, slowmo := 0,
     magnet := 0, x2 := 0, badges := [], orbs := [], idRef := 1, lastTs := None,
     running := True, paused := False, seed := seed s + 1 \<rparr>"

definition endGame :: "state \<Rightarrow> state \<Rightarrow> state" where
  \<comment> \<open>\<open>setBest((b) => (score > b ? score : b))\<close>: \<open>score\<close> is the closure's, \<open>b\<close> the pending best\<close>
  "endGame r s = s\<lparr> running := False, paused := False, streak := 0, combo := 0,
     mult := 1, seed := seed s + 1,
     best := (if score r > best s then score r else best s) \<rparr>"

subsection \<open>Spawning\<close>

record rect =
  left :: real
  top :: real
  width :: real
  height :: real

record spawn_draws =
  \<comment> \<open>the values of the twelve \<open>Math.random()\<close> calls of \<open>spawnOrb\<close>, in call order\<close>
  edgeU :: real
  xU :: real
  yU :: real
  jitterXU :: real
  jitterYU :: real
  velXU :: real
  velYU :: real
  powerU :: real
  badU :: real
  radiusU :: real
  ttlU :: real
  spinU :: real

definition hypot_or_1 :: "real \<Rightarrow> real \<Rightarrow> real" where
  \<comment> \<open>\<open>Math.hypot(a, b) || 1\<close>\<close>
  "hypot_or_1 a b = (if hypot a b = 0 then 1 else hypot a b)"

definition spawnKind :: "state \<Rightarrow> real \<Rightarrow> real \<Rightarrow> kind" where
  \<comment> \<open>lines 325 to 328: \<open>u1\<close> and \<open>u2\<close> are the two successive \<open>Math.random()\<close> values\<close>
  "spawnKind r u1 u2 =
    (let isPower = u1 < powerChance (difficulty r);
         isBad = u2 < badShare (difficulty r) \<and> \<not> isPower
     in if isPower then Power else if isBad then Bad else Good)"

definition spawnOrb :: "state \<Rightarrow> rect option \<Rightarrow> real \<Rightarrow> spawn_draws \<Rightarrow> state \<Rightarrow> state" where
  \<comment> \<open>\<open>now\<close> is the reading of \<open>performance.now()\<close>\<close>
  "spawnOrb r arena now d s =
    (case arena of None \<Rightarrow> s | Some rc \<Rightarrow>
      let w = width rc; h = height rc;
          edge = \<lfloor>rand 0 4 (edgeU d)\<rfloor>;
          x0 = rand 0 1 (xU d);
          y0 = rand 0 1 (yU d);
          y1 = (if edge = 0 then 0 else y0);
          y2 = (if edge = 1 then 1 else y1);
          x1 = (if edge = 2 then 0 else x0);
          x2' = (if edge = 3 then 1 else x1);
          toCenter = \<lparr> xc = 1 / 2 - x2', yc = 1 / 2 - y2 \<rparr>;
          len = hypot_or_1 (xc toCenter) (yc toCenter);
          jitter = \<lparr> xc = rand (- (3 / 10)) (3 / 10) (jitterXU d),
                     yc = rand (- (3 / 10)) (3 / 10) (jitterYU d) \<rparr>;
          sp = speed (difficulty r) / max w h;
          v = \<lparr> xc = (xc toCenter / len + xc jitter) * sp * rand (6 / 10) (13 / 10) (velXU d),
                yc = (yc toCenter / len + yc jitter) * sp * rand (6 / 10) (13 / 10) (velYU d) \<rparr>;
          k = spawnKind r (powerU d) (badU d);
          ob = \<lparr> orb_id = idRef s, kind = k, pos = \<lparr> xc = x2', yc = y2 \<rparr>, vel = v,
                 orb_radius = (if k = Bad then rand 12 18 (radiusU d)
                               else if k = Power then rand 14 20 (radiusU d)
                               else rand 10 16 (radiusU d)),
                 bornAt = now, ttl = rand 5000 10000 (ttlU d),
                 spin = rand 0 (pi * 2) (spinU d) \<rparr>
      in s\<lparr> idRef := idRef s + 1, orbs := orbs s @ [ob] \<rparr>)"

subsection \<open>The frame callback\<close>

record frame =
  ts :: real                     \<comment> \<open>the timestamp the callback receives\<close>
  clock :: real                  \<comment> \<open>\<open>performance.now()\<close>, taken as constant within the frame\<close>
  arena :: "rect option"         \<comment> \<open>\<open>arenaRef.current\<close> and its bounding rectangle\<close>
  spawnRoll :: real              \<comment> \<open>the \<open>Math.random()\<close> compared with the spawn chance\<close>
  draws :: spawn_draws
  powerRolls :: "nat \<Rightarrow> real"    \<comment> \<open>the \<open>Math.random()\<close> of the k-th power pickup of the frame\<close>

definition pxPos :: "rect \<Rightarrow> vec \<Rightarrow> vec" where
  "pxPos rc v = \<lparr> xc = xc v * width rc, yc = yc v * height rc \<rparr>"

definition timers :: "state \<Rightarrow> real \<Rightarrow> state \<Rightarrow> state" where
  "timers r dt s =
    (let s1 = (if slowmo r > 0 then s\<lparr>slowmo := max 0 (slowmo s - dt * 1000)\<rparr> else s);
         s2 = (if magnet r > 0 then s1\<lparr>magnet := max 0 (magnet s1 - dt * 1000)\<rparr> else s1);
         s3 = (if x2 r > 0 then s2\<lparr>x2 := max 0 (x2 s2 - dt * 1000)\<rparr> else s2)
     in s3)"

definition moveOrb :: "state \<Rightarrow> rect \<Rightarrow> real \<Rightarrow> vec \<Rightarrow> orb \<Rightarrow> orb" where
  "moveOrb r rc effectiveDt playerPx ob =
    (let velScale = speed (difficulty r) / max (width rc) (height rc);
         vx0 = xc (vel ob) * velScale * effectiveDt;
         vy0 = yc (vel ob) * velScale * effectiveDt;
         pull = (magnet r > 0 \<and> kind ob \<noteq> Bad);
         oPx = pxPos rc (pos ob);
         dx = xc playerPx - xc oPx;
         dy = yc playerPx - yc oPx;
         m = hypot_or_1 dx dy;
         vx = (if pull then vx0 + (dx / m) * (8 / 10) * effectiveDt else vx0);
         vy = (if pull then vy0 + (dy / m) * (8 / 10) * effectiveDt else vy0);
         nx = clamp (xc (pos ob) + vx) 0 1;
         ny = clamp (yc (pos ob) + vy) 0 1;
         bounced = (nx = 0 \<or> nx = 1 \<or> ny = 0 \<or> ny = 1);
         o1 = ob\<lparr>pos := \<lparr> xc = nx, yc = ny \<rparr>\<rparr>;
         o2 = (if bounced
               then o1\<lparr>vel := \<lparr> xc = xc (vel o1) * (if nx = 0 \<or> nx = 1 then - 1 else 1),
                                yc = yc (vel o1) * (if ny = 0 \<or> ny = 1 then - 1 else 1) \<rparr>\<rparr>
               else o1)
     in o2\<lparr>spin := spin o2 + (if kind o2 = Bad then 3 / 100 else 2 / 100)\<rparr>)"

fun moveLoop :: "(orb \<Rightarrow> orb) \<Rightarrow> real \<Rightarrow> orb list \<Rightarrow> orb list" where
  \<comment> \<open>lines 205 to 233: move every orb, keep those whose age is below their time to live\<close>
  "moveLoop f now [] = []"
| "moveLoop f now (ob # obs) =
    (let ob' = f ob
     in if now - bornAt ob' < ttl ob' then ob' # moveLoop f now obs else moveLoop f now obs)"

definition hit :: "state \<Rightarrow> rect \<Rightarrow> vec \<Rightarrow> orb \<Rightarrow> bool" where
  "hit r rc playerPx ob =
    (dist2 playerPx (pxPos rc (pos ob))
       \<le> (radius r + orb_radius ob) * (radius r + orb_radius ob))"

fun collisions :: "state \<Rightarrow> rect \<Rightarrow> vec \<Rightarrow> (nat \<Rightarrow> real) \<Rightarrow> nat \<Rightarrow> orb list \<Rightarrow> state \<Rightarrow> state" where
  \<comment> \<open>lines 237 to 253, over the copy of the list; \<open>k\<close> counts the power pickups so far\<close>
  "collisions r rc playerPx rolls k [] s = s"
| "collisions r rc playerPx rolls k (ob # obs) s =
    (if hit r rc playerPx ob
     then (if kind ob = Bad then endGame r s
           else collisions r rc playerPx rolls (if kind ob = Power then Suc k else k) obs
                  (let s' = handleCollect r ob (rolls k) s
                   in s'\<lparr>orbs := filter (\<lambda>x. orb_id x \<noteq> orb_id ob) (orbs s')\<rparr>))
     else collisions r rc playerPx rolls k obs s)"

definition frameDt :: "state \<Rightarrow> frame \<Rightarrow> real" where
  \<comment> \<open>lines 182 to 184: the seconds since the previous frame, 0 on the first frame\<close>
  "frameDt s fr = (ts fr - (case lastTs s of None \<Rightarrow> ts fr | Some l \<Rightarrow> l)) / 1000"

definition frameMove :: "state \<Rightarrow> rect \<Rightarrow> frame \<Rightarrow> state \<Rightarrow> orb \<Rightarrow> orb" where
  \<comment> \<open>the motion the frame gives an orb: \<open>effectiveDt = dt * slowFactor\<close>\<close>
  "frameMove r rc fr s =
     moveOrb r rc (frameDt s fr * (if slowmo r > 0 then 4 / 10 else 1)) (pxPos rc (player r))"

definition tick :: "state \<Rightarrow> frame \<Rightarrow> state \<Rightarrow> state" where
  "tick r fr s =
    (case arena fr of None \<Rightarrow> s | Some rc \<Rightarrow>
      let dt = frameDt s fr;
          s0 = s\<lparr>lastTs := Some (ts fr)\<rparr>;
          s1 = timers r dt s0;
          chance = spawnRate (difficulty r) * dt;
          s2 = (if spawnRoll fr < chance then spawnOrb r (arena fr) (clock fr) (draws fr) s1 else s1);
          s3 = s2\<lparr>orbs := moveLoop (frameMove r rc fr s) (clock fr) (orbs s2)\<rparr>
      in collisions r rc (pxPos rc (player r)) (powerRolls fr) 0 (orbs s3) s3)"

subsection \<open>Sharing\<close>

definition digit :: "nat \<Rightarrow> char" where
  "digit n = ''0123456789'' ! (n mod 10)"

fun show_nat :: "nat \<Rightarrow> string" where
  "show_nat n = (if n < 10 then [digit n] else show_nat (n div 10) @ [digit n])"

declare show_nat.simps [simp del]

definition show_int :: "int \<Rightarrow> string" where
  \<comment> \<open>the template literal's rendering of an integer-valued number\<close>
  "show_int i = (if i < 0 then CHR ''-'' # show_nat (nat (- i)) else show_nat (nat i))"

datatype share_cap = Absent | Resolves | Rejects
  \<comment> \<open>\<open>navigator.share\<close> is missing, or its promise resolves, or it rejects (failure, dismissal)\<close>

datatype clip_cap = NoClipboard | Copies | Refuses
  \<comment> \<open>\<open>navigator.clipboard\<close> is undefined (line 377 throws before any call), or
      \<open>writeText\<close> resolves, or it rejects\<close>

datatype call = NativeShare string string | WriteText string
  \<comment> \<open>the calls attempted: \<open>navigator.share({title, text})\<close>, \<open>navigator.clipboard.writeText(text)\<close>\<close>

definition shareText :: "int \<Rightarrow> string" where
  "shareText n = ''I scored '' @ show_int n @ '' in Viral Arcade! Can you beat me?''"

definition shareScore :: "state \<Rightarrow> share_cap \<Rightarrow> clip_cap \<Rightarrow> state \<Rightarrow> call list \<times> state" where
  \<comment> \<open>every exception and rejection ends in one of the two empty \<open>catch\<close> blocks\<close>
  "shareScore r cap clip s =
    (let txt = shareText (score r) in
     if cap \<noteq> Absent then ([NativeShare ''Viral Arcade'' txt], s)
     else (case clip of
             NoClipboard \<Rightarrow> ([], s)
           | Copies \<Rightarrow> ([WriteText txt], toast ''Copied! Share anywhere'' id s)
           | Refuses \<Rightarrow> ([WriteText txt], s)))"

subsection \<open>Input, the two timers' effects and the overlays\<close>

definition toNorm :: "rect \<Rightarrow> real \<Rightarrow> real \<Rightarrow> vec" where
  "toNorm rc eX eY = \<lparr> xc = clamp ((eX - left rc) / width rc) 0 1,
                        yc = clamp ((eY - top rc) / height rc) 0 1 \<rparr>"

definition onDown :: "rect \<Rightarrow> real \<Rightarrow> real \<Rightarrow> state \<Rightarrow> state" where
  "onDown rc eX eY s = s\<lparr> dragging := True, player := toNorm rc eX eY \<rparr>"

definition onMove :: "rect \<Rightarrow> real \<Rightarrow> real \<Rightarrow> state \<Rightarrow> state" where
  "onMove rc eX eY s = (if \<not> dragging s then s else s\<lparr> player := toNorm rc eX eY \<rparr>)"

definition decay :: "state \<Rightarrow> state" where
  \<comment> \<open>the body of the 80 ms interval, lines 386 to 389\<close>
  "decay s = (let s1 = s\<lparr>streak := max 0 (streak s - 2)\<rparr>
              in s1\<lparr>mult := clamp (mult s1 * (995 / 1000)) 1 5\<rparr>)"

definition streakMult :: "state \<Rightarrow> state \<Rightarrow> state" where
  \<comment> \<open>the effect on \<open>[streak]\<close>, lines 394 to 397\<close>
  "streakMult r s = (let m = 1 + of_int \<lfloor>streak r / 25\<rfloor> * (2 / 10)
                     in s\<lparr>mult := clamp (toFixed1 m) 1 4\<rparr>)"

definition welcomeShown :: "state \<Rightarrow> bool" where
  "welcomeShown s = (\<not> running s)"

definition pauseShown :: "state \<Rightarrow> bool" where
  "pauseShown s = (running s \<and> paused s)"

definition gameOverShown :: "state \<Rightarrow> bool" where
  "gameOverShown s = (\<not> running s \<and> score s > 0)"

subsection \<open>The component as a transition system\<close>

text \<open>
  One event is one handler run followed by the render it causes. The click, pointer,
  timer and effect handlers read the render in which the event happens. The frame
  callback reads the render in which the game-loop effect last ran: the effect runs again
  only after a render that changes one of its dependencies (line 261), which are
  \<open>running\<close>, \<open>paused\<close>, \<open>player\<close>, \<open>radius\<close>, \<open>difficulty\<close> (a new object exactly
  when the score changes), \<open>slowmo\<close>, \<open>magnet\<close> and \<open>x2\<close>. The multiplier, the combo and the
  badges are not among them, so the callback may see old values of these three.
  A control that is not rendered cannot be clicked, and the frame loop and the interval
  exist only while the game runs unpaused. The effect on the streak, the saving of the
  best score and the clearing of the notice may fire at any moment here, which only adds
  reachable states.
\<close>

datatype event =
    ClickStart
  | ClickPauseToggle
  | ClickResume
  | ClickResetBest
  | ClickSound
  | ClickShare share_cap clip_cap
  | PointerDown rect real real
  | PointerMove rect real real
  | PointerUp
  | AnimationFrame frame
  | DecayInterval
  | StreakEffect
  | SaveEffect bool
  | FlashTimeout

definition loopClosure :: "state \<Rightarrow> state" where
  \<comment> \<open>the render the frame callback closes over\<close>
  "loopClosure s = s\<lparr> mult := loopMult s, combo := loopCombo s, badges := loopBadges s \<rparr>"

definition loopDeps :: "state \<Rightarrow> bool \<times> bool \<times> vec \<times> real \<times> int \<times> real \<times> real \<times> real" where
  \<comment> \<open>the dependencies of the game-loop effect, the score standing for \<open>difficulty\<close>\<close>
  "loopDeps s = (running s, paused s, player s, radius s, score s, slowmo s, magnet s, x2 s)"

definition commit :: "state \<Rightarrow> state \<Rightarrow> state" where
  \<comment> \<open>the render after an event: the game-loop effect runs again, and closes over the new
      render, when a dependency differs from the previous render's\<close>
  "commit s s' =
     (if loopDeps s' \<noteq> loopDeps s
      then s'\<lparr> loopMult := mult s', loopCombo := combo s', loopBadges := badges s' \<rparr>
      else s')"

fun handle :: "event \<Rightarrow> state \<Rightarrow> state" where
  "handle ClickStart s = (if \<not> running s then startGame s else s)"
| "handle ClickPauseToggle s = (if running s then s\<lparr>paused := \<not> paused s\<rparr> else s)"
| "handle ClickResume s = (if running s \<and> paused s then s\<lparr>paused := False\<rparr> else s)"
| "handle ClickResetBest s = (if \<not> running s then toast ''Best reset'' id (s\<lparr>best := 0\<rparr>) else s)"
| "handle ClickSound s = s\<lparr>sound := \<not> sound s\<rparr>"
| "handle (ClickShare cap clip) s =
     (if \<not> running s \<and> score s > 0 then snd (shareScore s cap clip s) else s)"
| "handle (PointerDown rc eX eY) s = onDown rc eX eY s"
| "handle (PointerMove rc eX eY) s = onMove rc eX eY s"
| "handle PointerUp s = s\<lparr>dragging := False\<rparr>"
| "handle (AnimationFrame fr) s =
     (if running s \<and> \<not> paused s then tick (loopClosure s) fr s else s)"
| "handle DecayInterval s = (if running s \<and> \<not> paused s then decay s else s)"
| "handle StreakEffect s = streakMult s s"
| "handle (SaveEffect written) s = s\<lparr>stored := saveStored written (best s) (stored s)\<rparr>"
| "handle FlashTimeout s = s\<lparr>flash := None\<rparr>"

definition step :: "event \<Rightarrow> state \<Rightarrow> state" where
  "step e s = commit s (handle e s)"

fun run :: "event list \<Rightarrow> state \<Rightarrow> state" where
  "run [] s = s"
| "run (e # es) s = run es (step e s)"

subsection \<open>Concrete inputs\<close>

definition goodOrb :: orb where
  "goodOrb = \<lparr> orb_id = 1, kind = Good, pos = \<lparr> xc = 1 / 2, yc = 1 / 2 \<rparr>,
     vel = \<lparr> xc = 0, yc = 0 \<rparr>, orb_radius = 10, bornAt = 0, ttl = 5000, spin = 0 \<rparr>"

definition playing :: "int \<Rightarrow> int \<Rightarrow> state" where
  \<comment> \<open>a running game with the given score and combo, multiplier 1 and no buff\<close>
  "playing n c = (startGame (initial NoEntry))\<lparr> score := n, combo := c, loopCombo := c \<rparr>"

definition ended190 :: state where
  "ended190 = endGame (playing 190 3) (playing 190 3)"

definition rc400 :: rect where
  "rc400 = \<lparr> left = 0, top = 0, width = 400, height = 400 \<rparr>"

definition topDraws :: "real \<Rightarrow> spawn_draws" where
  \<comment> \<open>draws that spawn an orb at the middle of the top edge, heading straight down; it is
      a hazard when \<open>b\<close> is below the hazard share and good otherwise\<close>
  "topDraws b = \<lparr> edgeU = 0, xU = 1 / 2, yU = 1 / 2, jitterXU = 1 / 2, jitterYU = 1 / 2,
     velXU = 0, velYU = 0, powerU = 1 / 2, badU = b, radiusU = 0, ttlU = 0, spinU = 0 \<rparr>"

definition frameAt :: "real \<Rightarrow> real \<Rightarrow> real \<Rightarrow> frame" where
  "frameAt t roll b = \<lparr> ts = t, clock = t, arena = Some rc400, spawnRoll = roll,
     draws = topDraws b, powerRolls = (\<lambda>k. 0) \<rparr>"

definition spawnedRun :: "event list" where
  \<comment> \<open>start; a first frame; a frame that spawns a good orb at the top\<close>
  "spawnedRun = [ClickStart, AnimationFrame (frameAt 0 (1 / 2) (1 / 2)),
                 AnimationFrame (frameAt 100 0 (1 / 2))]"

definition theOrb :: orb where
  "theOrb = \<lparr> orb_id = 1, kind = Good, pos = \<lparr> xc = 1 / 2, yc = 147 / 80000 \<rparr>,
     vel = \<lparr> xc = 0, yc = 21 / 200 \<rparr>, orb_radius = 10, bornAt = 100, ttl = 5000,
     spin = 1 / 50 \<rparr>"

definition afterSpawn :: state where
  "afterSpawn = (startGame (initial NoEntry))\<lparr> orbs := [theOrb], idRef := 2, lastTs := Some 100 \<rparr>"

definition demo :: "event list" where
  \<comment> \<open>then a frame that spawns a hazard at the same place, and the player is dragged to
      the top edge\<close>
  "demo = spawnedRun @ [AnimationFrame (frameAt 200 0 0), PointerDown rc400 200 0]"

definition beforeHit :: state where
  "beforeHit = \<lparr> running = True, paused = False, score = 0, best = 0, combo = 0,
     mult = 1, streak = 0, sound = True, slowmo = 0, magnet = 0, x2 = 0, flash = None,
     badges = [], player = \<lparr> xc = 1 / 2, yc = 0 \<rparr>, radius = 18,
     orbs = [\<lparr> orb_id = 1, kind = Good, pos = \<lparr> xc = 1 / 2, yc = 147 / 40000 \<rparr>,
               vel = \<lparr> xc = 0, yc = 21 / 200 \<rparr>, orb_radius = 10, bornAt = 100,
               ttl = 5000, spin = 1 / 25 \<rparr>,
             \<lparr> orb_id = 2, kind = Bad, pos = \<lparr> xc = 1 / 2, yc = 147 / 80000 \<rparr>,
               vel = \<lparr> xc = 0, yc = 21 / 200 \<rparr>, orb_radius = 12, bornAt = 200,
               ttl = 5000, spin = 3 / 100 \<rparr>],
     idRef = 3, lastTs = Some 200, seed = 1, dragging = True,
     loopMult = 1, loopCombo = 0, loopBadges = [], stored = NoEntry \<rparr>"

definition hitFrame :: frame where
  \<comment> \<open>the next frame, 100 ms later, with no spawn\<close>
  "hitFrame = frameAt 300 (1 / 2) 0"

definition afterHit :: state where
  "afterHit = beforeHit\<lparr> running := False, score := 10, seed := 2, lastTs := Some 300,
     orbs := [\<lparr> orb_id = 2, kind = Bad, pos = \<lparr> xc = 1 / 2, yc = 147 / 40000 \<rparr>,
                vel = \<lparr> xc = 0, yc = 21 / 200 \<rparr>, orb_radius = 12, bornAt = 200,
                ttl = 5000, spin = 3 / 50 \<rparr>] \<rparr>"

definition pickups5 :: "event list" where
  \<comment> \<open>start, drag the player to the top edge, a first frame, then five frames that each
      spawn a good orb on the player, every change of the streak followed by its effect\<close>
  "pickups5 = [ClickStart, PointerDown rc400 200 0, AnimationFrame (frameAt 0 (1 / 2) (1 / 2)),
     AnimationFrame (frameAt 100 0 (1 / 2)), StreakEffect,
     AnimationFrame (frameAt 200 0 (1 / 2)), StreakEffect,
     AnimationFrame (frameAt 300 0 (1 / 2)), StreakEffect,
     AnimationFrame (frameAt 400 0 (1 / 2)), StreakEffect,
     AnimationFrame (frameAt 500 0 (1 / 2)), StreakEffect]"

definition fivePicked :: state where
  "fivePicked = \<lparr> running = True, paused = False, score = 50, best = 0, combo = 5,
     mult = 6 / 5, streak = 25, sound = True, slowmo = 0, magnet = 0, x2 = 0, flash = None,
     badges = [], player = \<lparr> xc = 1 / 2, yc = 0 \<rparr>, radius = 18, orbs = [], idRef = 6,
     lastTs = Some 500, seed = 1, dragging = True, loopMult = 1, loopCombo = 5,
     loopBadges = [], stored = NoEntry \<rparr>"

definition sixthPickup :: frame where
  "sixthPickup = frameAt 600 0 (1 / 2)"

definition sixPicked :: state where
  "sixPicked = fivePicked\<lparr> score := 60, combo := 6, streak := 30, idRef := 7,
     lastTs := Some 600, loopMult := 6 / 5, loopCombo := 6 \<rparr>"

definition cooling :: "event list" where
  \<comment> \<open>the effect of the sixth pickup's streak, then three ticks of the 80 ms interval,
      each followed by the effect on the streak\<close>
  "cooling = [StreakEffect, DecayInterval, StreakEffect, DecayInterval, StreakEffect,
              DecayInterval, StreakEffect]"

definition cooled :: state where
  "cooled = sixPicked\<lparr> streak := 24, mult := 1 \<rparr>"

definition seventhPickup :: frame where
  "seventhPickup = frameAt 700 0 (1 / 2)"

definition hazardAhead :: state where
  \<comment> \<open>a running game with score 30 and a hazard on the player\<close>
  "hazardAhead = (playing 30 3)\<lparr> orbs := [goodOrb\<lparr> kind := Bad \<rparr>] \<rparr>"

subsection \<open>Notions of the statements and the spec's reading of the spawn rule\<close>

definition persisted :: "state \<Rightarrow> int" where
  \<comment> \<open>the best score a fresh session would load from the storage\<close>
  "persisted s = loadStored 0 (stored s)"

definition multInv :: "state \<Rightarrow> bool" where
  "multInv s = (0 \<le> streak s \<and> streak s \<le> 100 \<and> 1 \<le> mult s \<and> mult s \<le> 9 / 5)"

definition idsOk :: "state \<Rightarrow> bool" where
  \<comment> \<open>the live orbs carry distinct identifiers, all below the next identifier\<close>
  "idsOk s = (distinct (map orb_id (orbs s)) \<and> list_all (\<lambda>ob. orb_id ob < idRef s) (orbs s))"

definition singleDrawKind :: "state \<Rightarrow> real \<Rightarrow> kind" where
  \<comment> \<open>the classification as the spec words it: one draw compared with both thresholds\<close>
  "singleDrawKind r u =
     (if u < powerChance (difficulty r) then Power
      else if u < badShare (difficulty r) then Bad else Good)"

section \<open>Verified properties\<close>

subsection \<open>Auxiliary facts\<close>

lemma hypot_or_1_zero_left: "hypot_or_1 0 b = (if b = 0 then 1 else \<bar>b\<bar>)"
  by (simp add: hypot_or_1_def hypot_def)

lemmas ev = initial_def loadStored_def saveStored_def step_def commit_def loopClosure_def
  loopDeps_def startGame_def tick_def frameDt_def frameMove_def timers_def spawnOrb_def spawnKind_def
  difficulty_def rand_def moveOrb_def pxPos_def hit_def dist2_def clamp_def
  handleCollect_def collectGood_def collectPower_def toast_def milestones_def endGame_def
  js_round_def onDown_def onMove_def toNorm_def Let_def rc400_def topDraws_def frameAt_def
  hypot_or_1_zero_left

lemmas ev2 = ev handle.simps decay_def streakMult_def toFixed1_def

lemma run_append: "run (es @ fs) s = run fs (run es s)"
  by (induction es arbitrary: s) simp_all

lemma spawned_run: "run spawnedRun (initial NoEntry) = afterSpawn"
  by (simp add: ev spawnedRun_def afterSpawn_def theOrb_def)

lemma demo_pre: "run demo (initial NoEntry) = beforeHit"
  by (simp add: demo_def run_append spawned_run)
     (simp add: ev afterSpawn_def theOrb_def beforeHit_def)

lemma hit_frame: "step (AnimationFrame hitFrame) beforeHit = afterHit"
  by (simp add: ev hitFrame_def beforeHit_def afterHit_def)

lemma award_score [simp]: "score (award r ms s) = score s"
  by (induction ms arbitrary: s) simp_all

lemma award_x2 [simp]: "x2 (award r ms s) = x2 s"
  by (induction ms arbitrary: s) simp_all

text \<open>What the badge loop does: a badge is appended exactly when the rendered score is one
  below its threshold.\<close>

lemma award_badges:
  "badges (award r ms s) = badges s @ filter (\<lambda>m. score r = m - 1 \<and> m \<notin> set (badges r)) ms"
proof (induction ms arbitrary: s)
  case Nil
  show ?case by simp
next
  case (Cons m ms)
  have "(score r < m \<and> m \<le> score r + 1) = (score r = m - 1)" by auto
  with Cons show ?case by simp
qed

subsection \<open>Badges\<close>

text \<open>
  Claim C1: on a scoring event, a threshold that the score crosses (below it before, at or
  above it after) gets its badge appended unless it is already recorded. The code tests
  \<open>score + 1 >= m\<close> instead of the new score: with score 190, multiplier 1 and no
  score-double, a good orb takes the score to 200, the badge for 200 is not recorded, and
  no badge is appended.
\<close>

theorem badge_190_to_200_missed:
  "score (playing 190 18) < 200
   \<and> 200 \<le> score (handleCollect (playing 190 18) goodOrb 0 (playing 190 18))
   \<and> 200 \<notin> set (badges (playing 190 18))
   \<and> badges (handleCollect (playing 190 18) goodOrb 0 (playing 190 18)) = []"
  by (simp add: ev playing_def goodOrb_def)

subsection \<open>Hazard collision\<close>

text \<open>
  Claim C2: a hazard collision in a frame of a running, unpaused game ends the run and
  makes the best score the maximum of the previous best and the final score. \<open>endGame\<close>
  compares the best with the score of the render the frame callback closes over: when a
  good orb is collected earlier in the same frame, the final score is 10 and the best
  stays 0. The state \<open>beforeHit\<close> is reached from the initial state by the events \<open>demo\<close>.
\<close>

theorem hazard_after_pickup_best_stale:
  "running beforeHit \<and> \<not> paused beforeHit \<and> best beforeHit = 0
   \<and> beforeHit = run demo (initial NoEntry)
   \<and> \<not> running (step (AnimationFrame hitFrame) beforeHit)
   \<and> score (step (AnimationFrame hitFrame) beforeHit) = 10
   \<and> best (step (AnimationFrame hitFrame) beforeHit) = 0"
  unfolding hit_frame demo_pre by (simp add: afterHit_def beforeHit_def)

subsection \<open>Score-double from the combo\<close>

text \<open>
  Claim C3 as stated fails: a good orb that takes the combo from 19 to 20 leaves the
  score-double timer at 0.
\<close>

theorem x2_not_set_at_combo_20:
  "kind goodOrb = Good
   \<and> combo (handleCollect (playing 250 19) goodOrb 0 (playing 250 19)) = 20
   \<and> x2 (handleCollect (playing 250 19) goodOrb 0 (playing 250 19)) = 0"
  by (simp add: ev playing_def goodOrb_def)

text \<open>
  Claim C3, amended: for every good-orb collection, the score-double timer is set to
  4000 ms when the combo the handler computes (the rendered combo plus one) is exactly 10,
  and is left as it was for every other value, the further multiples of 10 included.
\<close>

theorem x2_set_only_at_combo_10:
  "kind ob = Good \<Longrightarrow>
     x2 (handleCollect r ob c s) = (if combo r + 1 = 10 then 4000 else x2 s)"
  by (simp add: handleCollect_def collectGood_def toast_def Let_def)

theorem x2_set_only_at_combo_10_witness:
  "kind goodOrb = Good \<and> combo (playing 90 9) + 1 = 10
   \<and> x2 (handleCollect (playing 90 9) goodOrb 0 (playing 90 9)) = 4000"
  using x2_set_only_at_combo_10 [of goodOrb "playing 90 9" 0 "playing 90 9"]
  by (simp add: playing_def goodOrb_def startGame_def initial_def)

subsection \<open>Score of a good orb\<close>

text \<open>What the handler adds: the rounded product, with the multiplier and the score-double
  timer of the render it closes over.\<close>

lemma handleCollect_good_score:
  "kind ob = Good \<Longrightarrow>
     score (handleCollect r ob c s)
       = score s + js_round (10 * mult r * (if x2 r > 0 then 2 else 1))"
  by (simp add: handleCollect_def collectGood_def toast_def Let_def)

lemma js_round_nearest: "\<bar>of_int (js_round v) - v\<bar> \<le> 1 / 2"
  unfolding js_round_def by linarith

lemma js_round_tie: "js_round (of_int n + 1 / 2) = n + 1"
  unfolding js_round_def by linarith

lemma five_picked: "run pickups5 (initial NoEntry) = fivePicked"
  by (simp add: ev2 pickups5_def fivePicked_def)

lemma sixth_pickup: "step (AnimationFrame sixthPickup) fivePicked = sixPicked"
  by (simp add: ev2 sixthPickup_def sixPicked_def fivePicked_def)

lemma cooled_run: "run cooling sixPicked = cooled"
  by (simp add: ev2 cooling_def cooled_def sixPicked_def fivePicked_def)

lemma seventh_pickup:
  "step (AnimationFrame seventhPickup) cooled
     = cooled\<lparr> score := 72, combo := 7, streak := 29, idRef := 8, lastTs := Some 700,
         loopMult := 1, loopCombo := 7 \<rparr>"
  by (simp add: ev2 seventhPickup_def cooled_def sixPicked_def fivePicked_def)

text \<open>
  Claim C9: a good-orb collection adds exactly
  \<open>round(10 * multiplier * (2 if score-double is active else 1))\<close> to the score. The
  frame callback takes the multiplier from the render in which the game-loop effect last
  ran, and the multiplier is not among that effect's dependencies. After the events
  \<open>pickups5\<close> the multiplier is 1.2 with score-double inactive, so a pickup should add
  12: the sixth pickup adds 10. After the events \<open>cooling\<close> the multiplier is 1, so a
  pickup should add 10: the seventh pickup adds 12.
\<close>

theorem pickup_uses_stale_multiplier:
  "fivePicked = run pickups5 (initial NoEntry)
   \<and> mult fivePicked = 6 / 5 \<and> \<not> 0 < x2 fivePicked
   \<and> js_round (10 * mult fivePicked * 1) = 12
   \<and> combo (step (AnimationFrame sixthPickup) fivePicked) = combo fivePicked + 1
   \<and> score (step (AnimationFrame sixthPickup) fivePicked) = score fivePicked + 10
   \<and> cooled = run cooling (step (AnimationFrame sixthPickup) fivePicked)
   \<and> mult cooled = 1 \<and> \<not> 0 < x2 cooled
   \<and> combo (step (AnimationFrame seventhPickup) cooled) = combo cooled + 1
   \<and> score (step (AnimationFrame seventhPickup) cooled) = score cooled + 12"
  unfolding five_picked sixth_pickup cooled_run seventh_pickup
  by (simp add: fivePicked_def sixPicked_def cooled_def js_round_def)

subsection \<open>Sharing the score\<close>

text \<open>
  Claim C4 as stated fails: when the native share exists and its promise rejects, no
  clipboard write is made and no notice is shown.
\<close>

theorem share_rejected_no_copy:
  "fst (shareScore ended190 Rejects Copies ended190)
     = [NativeShare ''Viral Arcade'' ''I scored 190 in Viral Arcade! Can you beat me?'']
   \<and> flash (snd (shareScore ended190 Rejects Copies ended190)) = None"
  by (simp add: shareScore_def shareText_def show_int_def show_nat.simps digit_def
      ended190_def endGame_def playing_def startGame_def initial_def)

text \<open>
  Claim C4, amended: the share action turns to the clipboard only when the native share
  capability is absent. It then writes the message
  "I scored {score} in Viral Arcade! Can you beat me?" to the clipboard and shows
  "Copied! Share anywhere" when the write succeeds; when the write fails, or the clipboard
  itself is unavailable (no write is made then), the failure is swallowed and the state is
  left as it was. When the capability is present the message goes to the native share
  alone, and a failure or dismissal leaves the state as it was, with no clipboard write
  and no notice.
\<close>

theorem share_fallback_only_when_absent:
  "shareScore r cap clip s =
     (if cap = Absent
      then (if clip = NoClipboard then [] else [WriteText (shareText (score r))],
            if clip = Copies then s\<lparr>flash := Some ''Copied! Share anywhere''\<rparr> else s)
      else ([NativeShare ''Viral Arcade'' (shareText (score r))], s))
   \<and> shareText (score r)
       = ''I scored '' @ show_int (score r) @ '' in Viral Arcade! Can you beat me?''"
  by (cases clip) (simp_all add: shareScore_def shareText_def toast_def)

theorem share_fallback_only_when_absent_witness:
  "shareScore ended190 Absent Copies ended190 =
     ([WriteText ''I scored 190 in Viral Arcade! Can you beat me?''],
      ended190\<lparr>flash := Some ''Copied! Share anywhere''\<rparr>)
   \<and> shareScore ended190 Absent NoClipboard ended190 = ([], ended190)
   \<and> shareScore ended190 Absent Refuses ended190 =
     ([WriteText ''I scored 190 in Viral Arcade! Can you beat me?''], ended190)"
  using share_fallback_only_when_absent [of ended190 Absent Copies ended190]
    share_fallback_only_when_absent [of ended190 Absent NoClipboard ended190]
    share_fallback_only_when_absent [of ended190 Absent Refuses ended190]
  by (simp add: shareText_def show_int_def show_nat.simps digit_def
      ended190_def endGame_def playing_def startGame_def initial_def loadStored_def)

subsection \<open>The best score\<close>

lemma award_best [simp]: "best (award r ms s) = best s"
  by (induction ms arbitrary: s) simp_all

lemma handleCollect_best [simp]: "best (handleCollect r ob c s) = best s"
  by (simp add: handleCollect_def collectGood_def collectPower_def toast_def Let_def)

lemma collisions_best: "best s \<le> best (collisions r rc p rolls k cs s)"
proof (induction cs arbitrary: s k)
  case Nil
  show ?case by simp
next
  case (Cons c cs)
  show ?case
  proof (cases "hit r rc p c")
    case False
    with Cons show ?thesis by simp
  next
    case True
    show ?thesis
    proof (cases "kind c = Bad")
      case True
      with \<open>hit r rc p c\<close> show ?thesis by (simp add: endGame_def)
    next
      case False
      have "best s = best ((handleCollect r c (rolls k) s)
              \<lparr>orbs := filter (\<lambda>x. orb_id x \<noteq> orb_id c) (orbs (handleCollect r c (rolls k) s))\<rparr>)"
        by simp
      also have "\<dots> \<le> best (collisions r rc p rolls (if kind c = Power then Suc k else k) cs
              ((handleCollect r c (rolls k) s)
              \<lparr>orbs := filter (\<lambda>x. orb_id x \<noteq> orb_id c) (orbs (handleCollect r c (rolls k) s))\<rparr>))"
        by (rule Cons.IH)
      finally show ?thesis using False \<open>hit r rc p c\<close> by (simp add: Let_def)
    qed
  qed
qed

lemma timers_best [simp]: "best (timers r dt s) = best s"
  by (simp add: timers_def Let_def)

lemma spawnOrb_best [simp]: "best (spawnOrb r a now d s) = best s"
  by (simp add: spawnOrb_def Let_def split: option.splits)

lemma tick_best: "best s \<le> best (tick r fr s)"
proof (cases "arena fr")
  case None
  then show ?thesis by (simp add: tick_def)
next
  case (Some rc)
  define s2 where "s2 = (if spawnRoll fr < spawnRate (difficulty r) * frameDt s fr
           then spawnOrb r (arena fr) (clock fr) (draws fr) (timers r (frameDt s fr) (s\<lparr>lastTs := Some (ts fr)\<rparr>))
           else timers r (frameDt s fr) (s\<lparr>lastTs := Some (ts fr)\<rparr>))"
  define s3 where "s3 = s2\<lparr>orbs := moveLoop (frameMove r rc fr s) (clock fr) (orbs s2)\<rparr>"
  have t: "tick r fr s = collisions r rc (pxPos rc (player r)) (powerRolls fr) 0 (orbs s3) s3"
    using Some by (simp add: tick_def Let_def s3_def s2_def)
  have "best s3 = best s" by (simp add: s3_def s2_def)
  then show ?thesis
    unfolding t using collisions_best [of s3 r rc "pxPos rc (player r)" "powerRolls fr" 0 "orbs s3"]
    by simp
qed

lemma commit_best [simp]: "best (commit s s') = best s'"
  by (simp add: commit_def)

lemma handle_best: "e \<noteq> ClickResetBest \<Longrightarrow> best s \<le> best (handle e s)"
  by (cases e) (simp_all add: tick_best startGame_def shareScore_def toast_def onDown_def
      onMove_def decay_def streakMult_def Let_def split: clip_cap.splits)

lemma step_best: "e \<noteq> ClickResetBest \<Longrightarrow> best s \<le> best (step e s)"
  by (simp add: step_def handle_best)

lemma award_stored [simp]: "stored (award r ms s) = stored s"
  by (induction ms arbitrary: s) simp_all

lemma handleCollect_stored [simp]: "stored (handleCollect r ob c s) = stored s"
  by (simp add: handleCollect_def collectGood_def collectPower_def toast_def Let_def)

lemma collisions_stored [simp]: "stored (collisions r rc p rolls k cs s) = stored s"
  by (induction cs arbitrary: s k) (simp_all add: Let_def endGame_def)

lemma timers_stored [simp]: "stored (timers r dt s) = stored s"
  by (simp add: timers_def Let_def)

lemma spawnOrb_stored [simp]: "stored (spawnOrb r a now d s) = stored s"
  by (simp add: spawnOrb_def Let_def split: option.splits)

lemma tick_stored [simp]: "stored (tick r fr s) = stored s"
  by (simp add: tick_def Let_def split: option.splits)

lemma commit_stored [simp]: "stored (commit s s') = stored s'"
  by (simp add: commit_def)

lemma handle_stored:
  "\<forall>written. e \<noteq> SaveEffect written \<Longrightarrow> stored (handle e s) = stored s"
  by (cases e) (auto simp add: startGame_def shareScore_def toast_def onDown_def
      onMove_def decay_def streakMult_def Let_def split: clip_cap.splits)

lemma step_persisted:
  assumes "e \<noteq> ClickResetBest" and "persisted s \<le> best s"
  shows "persisted s \<le> persisted (step e s) \<and> persisted (step e s) \<le> best (step e s)"
proof (cases "\<exists>written. e = SaveEffect written")
  case True
  then show ?thesis using assms(2)
    by (auto simp add: step_def persisted_def saveStored_def loadStored_def)
next
  case False
  then have "stored (handle e s) = stored s"
    by (simp add: handle_stored)
  then have "persisted (step e s) = persisted s"
    by (simp add: step_def persisted_def)
  with assms(2) step_best [OF assms(1), of s] show ?thesis by simp
qed

lemma run_persisted:
  "ClickResetBest \<notin> set evs \<Longrightarrow> persisted s \<le> best s \<Longrightarrow>
     persisted s \<le> persisted (run evs s) \<and> persisted (run evs s) \<le> best (run evs s)"
proof (induction evs arbitrary: s)
  case Nil
  then show ?case by simp
next
  case (Cons e evs)
  from Cons.prems have e: "e \<noteq> ClickResetBest" and r: "ClickResetBest \<notin> set evs"
    by auto
  from step_persisted [OF e Cons.prems(2)]
  have a: "persisted s \<le> persisted (step e s)" and b: "persisted (step e s) \<le> best (step e s)"
    by simp_all
  from Cons.IH [OF r b] a show ?case by simp
qed

lemma run_best: "ClickResetBest \<notin> set evs \<Longrightarrow> best s \<le> best (run evs s)"
proof (induction evs arbitrary: s)
  case Nil
  show ?case by simp
next
  case (Cons e evs)
  from Cons.prems have "e \<noteq> ClickResetBest" and "ClickResetBest \<notin> set evs"
    by auto
  then have "best s \<le> best (step e s)" and "best (step e s) \<le> best (run evs (step e s))"
    using Cons.IH by (simp_all add: step_best)
  then show ?case by simp
qed

text \<open>
  Claim C5 as stated fails: with 50 stored, the "Reset Best" button of the welcome screen
  replaces the best by 0, and the save that follows replaces the stored 50 by 0.
\<close>

theorem reset_best_lowers_best:
  "best (step ClickResetBest (initial (Entry 50))) < best (initial (Entry 50))
   \<and> persisted (run [ClickResetBest, SaveEffect True] (initial (Entry 50)))
       < persisted (initial (Entry 50))"
  by (simp add: ev persisted_def)

text \<open>
  Claim C5, amended: along every sequence of operations that does not contain the
  "Reset Best" action, the best score never decreases, and neither does the persisted
  value once it is at most the best score (as it is when the component has mounted, and
  as it stays along such a sequence). "Reset Best", which the welcome screen offers
  whenever the game is not running, sets the best score to 0, and the save that follows
  persists 0.
\<close>

theorem best_monotone_without_reset:
  "(ClickResetBest \<notin> set evs \<longrightarrow> best s \<le> best (run evs s))
   \<and> (ClickResetBest \<notin> set evs \<and> persisted s \<le> best s \<longrightarrow>
        persisted s \<le> persisted (run evs s) \<and> persisted (run evs s) \<le> best (run evs s))
   \<and> persisted (initial st) = best (initial st)
   \<and> (\<not> running s \<longrightarrow>
        best (step ClickResetBest s) = 0
        \<and> persisted (step (SaveEffect True) (step ClickResetBest s)) = 0)"
proof -
  have "\<not> running s \<longrightarrow> best (step ClickResetBest s) = 0
        \<and> persisted (step (SaveEffect True) (step ClickResetBest s)) = 0"
    by (simp add: step_def persisted_def saveStored_def loadStored_def toast_def)
  moreover have "persisted (initial st) = best (initial st)"
    by (simp add: persisted_def initial_def)
  ultimately show ?thesis using run_best [of evs s] run_persisted [of evs s] by blast
qed

theorem best_monotone_without_reset_witness:
  "ClickResetBest \<notin> set [AnimationFrame (frameAt 0 (1 / 2) 0), SaveEffect True]
   \<and> best hazardAhead = 0 \<and> persisted hazardAhead = 0
   \<and> best (run [AnimationFrame (frameAt 0 (1 / 2) 0), SaveEffect True] hazardAhead) = 30
   \<and> persisted (run [AnimationFrame (frameAt 0 (1 / 2) 0), SaveEffect True] hazardAhead) = 30
   \<and> \<not> running (initial (Entry 50))
   \<and> best (step ClickResetBest (initial (Entry 50))) = 0
   \<and> persisted (step (SaveEffect True) (step ClickResetBest (initial (Entry 50)))) = 0"
  using best_monotone_without_reset
    [of "[AnimationFrame (frameAt 0 (1 / 2) 0), SaveEffect True]" hazardAhead NoEntry]
    best_monotone_without_reset [of "[]" "initial (Entry 50)" NoEntry]
  by (simp add: ev persisted_def hazardAhead_def playing_def goodOrb_def)

subsection \<open>The overlays\<close>

text \<open>
  Claim C6 as stated fails: after the run \<open>demo\<close> and the frame in which the hazard is
  hit, the game is over with score 10, and the welcome screen and the game-over screen are
  both displayed.
\<close>

theorem welcome_and_game_over_together:
  "afterHit = run (demo @ [AnimationFrame hitFrame]) (initial NoEntry)
   \<and> welcomeShown afterHit \<and> gameOverShown afterHit"
  by (simp add: run_append demo_pre hit_frame)
     (simp add: welcomeShown_def gameOverShown_def afterHit_def)

text \<open>
  Claim C6, amended: the pause screen is never displayed together with the welcome screen
  or the game-over screen. The welcome screen is displayed exactly when the game is not
  running (before the first run and after a run has ended alike), the pause screen exactly
  when it is running and paused, and the game-over screen exactly when it is not running
  and the score is positive; so the game-over screen is always displayed together with
  the welcome screen.
\<close>

theorem overlays_shown:
  "welcomeShown s = (\<not> running s)
   \<and> pauseShown s = (running s \<and> paused s)
   \<and> gameOverShown s = (\<not> running s \<and> 0 < score s)
   \<and> \<not> (pauseShown s \<and> welcomeShown s)
   \<and> \<not> (pauseShown s \<and> gameOverShown s)
   \<and> (gameOverShown s \<longrightarrow> welcomeShown s)"
  by (auto simp add: welcomeShown_def pauseShown_def gameOverShown_def)

theorem overlays_shown_witness:
  "gameOverShown ended190 \<and> welcomeShown ended190 \<and> \<not> pauseShown ended190"
  using overlays_shown [of ended190]
  by (simp add: ended190_def endGame_def playing_def startGame_def initial_def)

subsection \<open>Expiry of orbs\<close>

lemma moveLoop_filter:
  "moveLoop f now obs = filter (\<lambda>ob. now - bornAt ob < ttl ob) (map f obs)"
  by (induction obs) (simp_all add: Let_def)

lemma moveOrb_keeps [simp]:
  "orb_id (moveOrb r rc e p ob) = orb_id ob"
  "kind (moveOrb r rc e p ob) = kind ob"
  "bornAt (moveOrb r rc e p ob) = bornAt ob"
  "ttl (moveOrb r rc e p ob) = ttl ob"
  by (simp_all add: moveOrb_def Let_def)

lemma frameMove_keeps [simp]:
  "orb_id (frameMove r rc fr s ob) = orb_id ob"
  "kind (frameMove r rc fr s ob) = kind ob"
  "bornAt (frameMove r rc fr s ob) = bornAt ob"
  "ttl (frameMove r rc fr s ob) = ttl ob"
  by (simp_all add: frameMove_def)

lemma award_orbs [simp]: "orbs (award r ms s) = orbs s"
  by (induction ms arbitrary: s) simp_all

lemma award_idRef [simp]: "idRef (award r ms s) = idRef s"
  by (induction ms arbitrary: s) simp_all

lemma handleCollect_orbs [simp]: "orbs (handleCollect r ob c s) = orbs s"
  by (simp add: handleCollect_def collectGood_def collectPower_def toast_def Let_def)

lemma handleCollect_idRef [simp]: "idRef (handleCollect r ob c s) = idRef s"
  by (simp add: handleCollect_def collectGood_def collectPower_def toast_def Let_def)

lemma collisions_idRef [simp]: "idRef (collisions r rc p rolls k cs s) = idRef s"
  by (induction cs arbitrary: s k) (simp_all add: Let_def endGame_def)

lemma collisions_orbs_subset:
  "set (orbs (collisions r rc p rolls k cs s)) \<subseteq> set (orbs s)"
proof (induction cs arbitrary: s k)
  case Nil
  show ?case by simp
next
  case (Cons c cs)
  let ?s' = "handleCollect r c (rolls k) s"
  let ?t = "?s'\<lparr>orbs := filter (\<lambda>x. orb_id x \<noteq> orb_id c) (orbs ?s')\<rparr>"
  have "set (orbs (collisions r rc p rolls (if kind c = Power then Suc k else k) cs ?t))
          \<subseteq> set (orbs ?t)"
    by (rule Cons.IH)
  moreover have "set (orbs ?t) \<subseteq> set (orbs s)" by auto
  ultimately have b: "set (orbs (collisions r rc p rolls (if kind c = Power then Suc k else k) cs ?t))
          \<subseteq> set (orbs s)" by (rule subset_trans)
  have a: "set (orbs (collisions r rc p rolls k cs s)) \<subseteq> set (orbs s)" by (rule Cons.IH)
  show ?case using a b by (simp add: Let_def endGame_def)
qed

lemma collisions_keeps:
  assumes "x \<in> set (orbs s)"
    and "list_all (\<lambda>c. orb_id c = orb_id x \<longrightarrow> \<not> (hit r rc p c \<and> kind c \<noteq> Bad)) cs"
  shows "x \<in> set (orbs (collisions r rc p rolls k cs s))"
  using assms
proof (induction cs arbitrary: s k)
  case Nil
  then show ?case by simp
next
  case (Cons c cs)
  let ?s' = "handleCollect r c (rolls k) s"
  let ?t = "?s'\<lparr>orbs := filter (\<lambda>x. orb_id x \<noteq> orb_id c) (orbs ?s')\<rparr>"
  from Cons.prems have rest: "list_all (\<lambda>c. orb_id c = orb_id x \<longrightarrow> \<not> (hit r rc p c \<and> kind c \<noteq> Bad)) cs"
    and here: "orb_id c = orb_id x \<longrightarrow> \<not> (hit r rc p c \<and> kind c \<noteq> Bad)"
    by simp_all
  have a: "x \<in> set (orbs (collisions r rc p rolls k cs s))"
    using Cons.prems(1) rest by (rule Cons.IH)
  have e: "x \<in> set (orbs (endGame r s))" using Cons.prems(1) by (simp add: endGame_def)
  show ?case
  proof (cases "hit r rc p c \<and> kind c \<noteq> Bad")
    case True
    with here have "orb_id x \<noteq> orb_id c" by auto
    with Cons.prems(1) have "x \<in> set (orbs ?t)" by simp
    then have "x \<in> set (orbs (collisions r rc p rolls (if kind c = Power then Suc k else k) cs ?t))"
      using rest by (rule Cons.IH)
    with True show ?thesis by (simp add: Let_def)
  next
    case False
    with a e show ?thesis by auto
  qed
qed

lemma timers_orbs [simp]: "orbs (timers r dt s) = orbs s"
  by (simp add: timers_def Let_def)

lemma timers_idRef [simp]: "idRef (timers r dt s) = idRef s"
  by (simp add: timers_def Let_def)

lemma spawnOrb_orbs:
  "\<exists>new. orb_id new = idRef s \<and> orbs (spawnOrb r (Some rc) now d s) = orbs s @ [new]"
  by (simp add: spawnOrb_def Let_def)

text \<open>The state of a frame after the timers, the spawn and the move loop.\<close>

lemma tick_shape:
  assumes "arena fr = Some rc"
  shows "\<exists>s3 extra. tick r fr s = collisions r rc (pxPos rc (player r)) (powerRolls fr) 0 (orbs s3) s3
     \<and> orbs s3 = filter (\<lambda>ob. clock fr - bornAt ob < ttl ob) (map (frameMove r rc fr s) (orbs s @ extra))
     \<and> list_all (\<lambda>ob. orb_id ob = idRef s) extra \<and> length extra \<le> 1
     \<and> idRef s3 = idRef s + int (length extra)"
proof -
  define s1 where "s1 = timers r (frameDt s fr) (s\<lparr>lastTs := Some (ts fr)\<rparr>)"
  define s2 where "s2 = (if spawnRoll fr < spawnRate (difficulty r) * frameDt s fr
           then spawnOrb r (arena fr) (clock fr) (draws fr) s1 else s1)"
  define s3 where "s3 = s2\<lparr>orbs := moveLoop (frameMove r rc fr s) (clock fr) (orbs s2)\<rparr>"
  have t: "tick r fr s = collisions r rc (pxPos rc (player r)) (powerRolls fr) 0 (orbs s3) s3"
    using assms by (simp add: tick_def Let_def s3_def s2_def s1_def)
  have s1: "orbs s1 = orbs s" "idRef s1 = idRef s" by (simp_all add: s1_def)
  obtain new where new: "orb_id new = idRef s1"
      "orbs (spawnOrb r (Some rc) (clock fr) (draws fr) s1) = orbs s1 @ [new]"
    using spawnOrb_orbs by blast
  have idn: "idRef (spawnOrb r (Some rc) (clock fr) (draws fr) s1) = idRef s1 + 1"
    by (simp add: spawnOrb_def Let_def)
  define extra where "extra = (if spawnRoll fr < spawnRate (difficulty r) * frameDt s fr then [new] else [])"
  have o2: "orbs s2 = orbs s @ extra" and i2: "idRef s2 = idRef s + int (length extra)"
    using new idn s1 assms by (simp_all add: s2_def extra_def)
  have "orbs s3 = filter (\<lambda>ob. clock fr - bornAt ob < ttl ob) (map (frameMove r rc fr s) (orbs s @ extra))"
    by (simp add: s3_def moveLoop_filter o2)
  moreover have "list_all (\<lambda>ob. orb_id ob = idRef s) extra \<and> length extra \<le> 1"
    using new s1 by (simp add: extra_def)
  moreover have "idRef s3 = idRef s + int (length extra)" using i2 by (simp add: s3_def)
  ultimately show ?thesis using t by blast
qed


lemma collisions_distinct:
  "distinct (map orb_id (orbs s)) \<Longrightarrow> distinct (map orb_id (orbs (collisions r rc p rolls k cs s)))"
proof (induction cs arbitrary: s k)
  case Nil
  then show ?case by simp
next
  case (Cons c cs)
  let ?s' = "handleCollect r c (rolls k) s"
  let ?t = "?s'\<lparr>orbs := filter (\<lambda>x. orb_id x \<noteq> orb_id c) (orbs ?s')\<rparr>"
  have "distinct (map orb_id (orbs ?t))" using Cons.prems by (simp add: distinct_map_filter)
  then have b: "distinct (map orb_id (orbs (collisions r rc p rolls (if kind c = Power then Suc k else k) cs ?t)))"
    by (rule Cons.IH)
  have a: "distinct (map orb_id (orbs (collisions r rc p rolls k cs s)))"
    using Cons.prems by (rule Cons.IH)
  show ?case using a b Cons.prems by (simp add: Let_def endGame_def)
qed

lemma distinct_moved:
  assumes "distinct (map orb_id xs)"
  shows "distinct (map orb_id (filter P (map (frameMove r rc fr s) xs)))"
proof -
  have "map orb_id (map (frameMove r rc fr s) xs) = map orb_id xs" by (simp add: o_def)
  with assms have "distinct (map orb_id (map (frameMove r rc fr s) xs))" by (simp only:)
  then show ?thesis by (rule distinct_map_filter)
qed

lemma tick_idsOk:
  assumes "idsOk s"
  shows "idsOk (tick r fr s)"
proof (cases "arena fr")
  case None
  with assms show ?thesis by (simp add: tick_def)
next
  case (Some rc)
  from tick_shape [OF Some, of r s] obtain s3 extra where
    t: "tick r fr s = collisions r rc (pxPos rc (player r)) (powerRolls fr) 0 (orbs s3) s3"
    and o3: "orbs s3 = filter (\<lambda>ob. clock fr - bornAt ob < ttl ob) (map (frameMove r rc fr s) (orbs s @ extra))"
    and ex: "list_all (\<lambda>ob. orb_id ob = idRef s) extra" "length extra \<le> 1"
    and i3: "idRef s3 = idRef s + int (length extra)"
    by blast
  from assms have d: "distinct (map orb_id (orbs s))" and lt: "\<forall>ob\<in>set (orbs s). orb_id ob < idRef s"
    by (simp_all add: idsOk_def list_all_iff)
  from ex have exs: "extra = [] \<or> (\<exists>n. extra = [n] \<and> orb_id n = idRef s)"
    by (cases extra) auto
  have dd: "distinct (map orb_id (orbs s @ extra))"
    using d lt exs by auto
  have d3: "distinct (map orb_id (orbs s3))" unfolding o3 using dd by (rule distinct_moved)
  have b3: "\<forall>ob\<in>set (orbs s3). orb_id ob < idRef s3"
  proof
    fix ob assume "ob \<in> set (orbs s3)"
    then have "ob \<in> frameMove r rc fr s ` set (orbs s @ extra)"
      unfolding o3 by auto
    then obtain x where x: "x \<in> set (orbs s @ extra)" and ob: "ob = frameMove r rc fr s x"
      by blast
    from x lt exs i3 have "orb_id x < idRef s3" by auto
    then show "orb_id ob < idRef s3" using ob by simp
  qed
  have "distinct (map orb_id (orbs (tick r fr s)))"
    unfolding t using d3 by (rule collisions_distinct)
  moreover have "\<forall>ob\<in>set (orbs (tick r fr s)). orb_id ob < idRef (tick r fr s)"
    unfolding t using b3 collisions_orbs_subset [of r rc "pxPos rc (player r)" "powerRolls fr" 0 "orbs s3" s3]
    by auto
  ultimately show ?thesis by (simp add: idsOk_def list_all_iff)
qed

lemma commit_idsOk [simp]: "idsOk (commit s s') = idsOk s'"
  by (simp add: commit_def idsOk_def)

lemma handle_idsOk: "idsOk s \<Longrightarrow> idsOk (handle e s)"
  by (cases e) (simp_all add: tick_idsOk, simp_all add: idsOk_def startGame_def shareScore_def
      toast_def onDown_def onMove_def decay_def streakMult_def Let_def split: clip_cap.splits)

lemma step_idsOk: "idsOk s \<Longrightarrow> idsOk (step e s)"
  by (simp add: step_def handle_idsOk)

lemma run_idsOk: "idsOk s \<Longrightarrow> idsOk (run evs s)"
  by (induction evs arbitrary: s) (simp_all add: step_idsOk)

lemma reachable_idsOk: "idsOk (run evs (initial b))"
  by (rule run_idsOk) (simp add: idsOk_def initial_def)

text \<open>The frame, for any render the callback may close over.\<close>

lemma tick_expiry:
  assumes "idsOk s" and "arena fr = Some rc" and "ob \<in> set (orbs s)"
  shows "(ttl ob \<le> clock fr - bornAt ob \<longrightarrow>
            orb_id ob \<notin> orb_id ` set (orbs (tick r fr s)))
       \<and> (clock fr - bornAt ob < ttl ob
            \<and> \<not> (kind ob \<noteq> Bad \<and> hit r rc (pxPos rc (player r)) (frameMove r rc fr s ob)) \<longrightarrow>
            frameMove r rc fr s ob \<in> set (orbs (tick r fr s)))"
proof -
  from assms(1) have d: "distinct (map orb_id (orbs s))" and lt: "\<forall>x\<in>set (orbs s). orb_id x < idRef s"
    by (simp_all add: idsOk_def list_all_iff)
  from tick_shape [OF assms(2), of r s] obtain s3 extra where
    t: "tick r fr s = collisions r rc (pxPos rc (player r)) (powerRolls fr) 0 (orbs s3) s3"
    and o3: "orbs s3 = filter (\<lambda>ob. clock fr - bornAt ob < ttl ob) (map (frameMove r rc fr s) (orbs s @ extra))"
    and ex: "list_all (\<lambda>ob. orb_id ob = idRef s) extra"
    by blast
  have same: "x = ob" if "x \<in> set (orbs s @ extra)" and "orb_id x = orb_id ob" for x
  proof -
    from that ex lt assms(3) have "x \<in> set (orbs s)" by (auto simp: list_all_iff)
    with d assms(3) that(2) show ?thesis by (meson distinct_map inj_onD)
  qed
  have gone: "orb_id ob \<notin> orb_id ` set (orbs (tick r fr s))" if old: "ttl ob \<le> clock fr - bornAt ob"
  proof
    assume "orb_id ob \<in> orb_id ` set (orbs (tick r fr s))"
    then obtain y where y: "y \<in> set (orbs (tick r fr s))" and iy: "orb_id y = orb_id ob" by auto
    from y have "y \<in> set (orbs s3)"
      unfolding t using collisions_orbs_subset by blast
    then have "y \<in> frameMove r rc fr s ` set (orbs s @ extra)"
      and alive: "clock fr - bornAt y < ttl y"
      unfolding o3 by auto
    then obtain x where x: "x \<in> set (orbs s @ extra)" and yx: "y = frameMove r rc fr s x"
      by blast
    from iy yx have "orb_id x = orb_id ob" by simp
    with x have "x = ob" by (rule same)
    with alive yx old show False by simp
  qed
  have kept: "frameMove r rc fr s ob \<in> set (orbs (tick r fr s))"
    if young: "clock fr - bornAt ob < ttl ob"
      and free: "\<not> (kind ob \<noteq> Bad \<and> hit r rc (pxPos rc (player r)) (frameMove r rc fr s ob))"
  proof -
    have in3: "frameMove r rc fr s ob \<in> set (orbs s3)"
      unfolding o3 using assms(3) young by simp
    have "list_all (\<lambda>c. orb_id c = orb_id (frameMove r rc fr s ob) \<longrightarrow>
             \<not> (hit r rc (pxPos rc (player r)) c \<and> kind c \<noteq> Bad)) (orbs s3)"
      unfolding list_all_iff
    proof (intro ballI impI)
      fix c assume c: "c \<in> set (orbs s3)" and ic: "orb_id c = orb_id (frameMove r rc fr s ob)"
      from c have "c \<in> frameMove r rc fr s ` set (orbs s @ extra)"
        unfolding o3 by auto
      then obtain x where x: "x \<in> set (orbs s @ extra)" and cx: "c = frameMove r rc fr s x"
        by blast
      from ic cx have "orb_id x = orb_id ob" by simp
      with x have "x = ob" by (rule same)
      with cx free show "\<not> (hit r rc (pxPos rc (player r)) c \<and> kind c \<noteq> Bad)" by auto
    qed
    with in3 show ?thesis unfolding t by (rule collisions_keeps)
  qed
  show ?thesis using gone kept by blast
qed



lemma loopClosure_frame [simp]:
  "frameMove (loopClosure s) rc fr t = frameMove s rc fr t"
  "hit (loopClosure s) rc p ob = hit s rc p ob"
  "player (loopClosure s) = player s"
  by (simp_all add: loopClosure_def frameMove_def moveOrb_def hit_def difficulty_def fun_eq_iff)

lemma commit_orbs [simp]: "orbs (commit s s') = orbs s'"
  by (simp add: commit_def)

text \<open>
  Claim C7: an orb that is not collected is removed from the live set by the first frame
  whose clock has reached its creation time plus its time to live, and no earlier frame
  removes it. For a state \<open>s\<close> reached from the initial state, a frame of the running,
  unpaused game and an orb \<open>ob\<close> of the live set: when the age of \<open>ob\<close> has reached
  its time to live, no orb with its identifier is left after the frame; when it has not,
  and \<open>ob\<close> is not collected in the frame (it is a hazard, or it does not touch the
  player), the moved orb is in the live set after the frame.
\<close>

theorem orb_expiry_at_ttl:
  assumes "s = run evs (initial b)" and "running s" and "\<not> paused s"
    and "arena fr = Some rc" and "ob \<in> set (orbs s)"
  shows "(ttl ob \<le> clock fr - bornAt ob \<longrightarrow>
            orb_id ob \<notin> orb_id ` set (orbs (step (AnimationFrame fr) s)))
       \<and> (clock fr - bornAt ob < ttl ob
            \<and> \<not> (kind ob \<noteq> Bad \<and> hit s rc (pxPos rc (player s)) (frameMove s rc fr s ob)) \<longrightarrow>
            frameMove s rc fr s ob \<in> set (orbs (step (AnimationFrame fr) s)))"
proof -
  have st: "orbs (step (AnimationFrame fr) s) = orbs (tick (loopClosure s) fr s)"
    using assms(2,3) by (simp add: step_def)
  have ok: "idsOk s" unfolding assms(1) by (rule reachable_idsOk)
  from tick_expiry [OF ok assms(4,5), of "loopClosure s"] show ?thesis
    unfolding st by simp
qed

theorem orb_expiry_at_ttl_witness:
  "afterSpawn = run spawnedRun (initial NoEntry) \<and> running afterSpawn \<and> \<not> paused afterSpawn
   \<and> theOrb \<in> set (orbs afterSpawn)
   \<and> ttl theOrb \<le> clock (frameAt 5100 (1 / 2) (1 / 2)) - bornAt theOrb
   \<and> orb_id theOrb \<notin> orb_id ` set (orbs (step (AnimationFrame (frameAt 5100 (1 / 2) (1 / 2))) afterSpawn))
   \<and> clock (frameAt 5099 (1 / 2) (1 / 2)) - bornAt theOrb < ttl theOrb
   \<and> \<not> hit afterSpawn rc400 (pxPos rc400 (player afterSpawn))
          (frameMove afterSpawn rc400 (frameAt 5099 (1 / 2) (1 / 2)) afterSpawn theOrb)
   \<and> frameMove afterSpawn rc400 (frameAt 5099 (1 / 2) (1 / 2)) afterSpawn theOrb
        \<in> set (orbs (step (AnimationFrame (frameAt 5099 (1 / 2) (1 / 2))) afterSpawn))"
proof -
  have h1: "afterSpawn = run spawnedRun (initial NoEntry)" by (simp only: spawned_run)
  have h2: "running afterSpawn" and h3: "\<not> paused afterSpawn"
    and h5: "theOrb \<in> set (orbs afterSpawn)"
    by (simp_all add: afterSpawn_def startGame_def)
  have h4: "arena (frameAt t a b) = Some rc400" for t a b by (simp add: frameAt_def)
  have old: "ttl theOrb \<le> clock (frameAt 5100 (1 / 2) (1 / 2)) - bornAt theOrb"
    and young: "clock (frameAt 5099 (1 / 2) (1 / 2)) - bornAt theOrb < ttl theOrb"
    by (simp_all add: frameAt_def theOrb_def)
  have free: "\<not> hit afterSpawn rc400 (pxPos rc400 (player afterSpawn))
          (frameMove afterSpawn rc400 (frameAt 5099 (1 / 2) (1 / 2)) afterSpawn theOrb)"
    by (simp add: ev afterSpawn_def theOrb_def)
  from orb_expiry_at_ttl [OF h1 h2 h3 h4 h5, of 5100 "1 / 2" "1 / 2"] old
  have a: "orb_id theOrb \<notin> orb_id ` set (orbs (step (AnimationFrame (frameAt 5100 (1 / 2) (1 / 2))) afterSpawn))"
    by blast
  from orb_expiry_at_ttl [OF h1 h2 h3 h4 h5, of 5099 "1 / 2" "1 / 2"] young free
  have b: "frameMove afterSpawn rc400 (frameAt 5099 (1 / 2) (1 / 2)) afterSpawn theOrb
        \<in> set (orbs (step (AnimationFrame (frameAt 5099 (1 / 2) (1 / 2))) afterSpawn))"
    by blast
  show ?thesis using h1 h2 h3 h5 old young free a b by blast
qed

text \<open>A spawned orb is born at the frame's clock, with a time to live drawn from its range.\<close>

lemma spawned_orb_birth:
  "bornAt (last (orbs (spawnOrb r (Some rc) now d s))) = now
   \<and> ttl (last (orbs (spawnOrb r (Some rc) now d s))) = rand 5000 10000 (ttlU d)"
  by (simp add: spawnOrb_def Let_def)

subsection \<open>The kind of a spawned orb\<close>

text \<open>
  Claim C8 as stated fails: the kind comes from two draws, not one. With the first draw
  1/2 and the second 1/20 at score 0 the orb is a hazard, while one draw compared with
  both thresholds gives a good orb for 1/2 and a power-up for 1/20.
\<close>

theorem spawn_kind_not_single_draw:
  "kind (last (orbs (spawnOrb (playing 0 0) (Some rc400) 0 (topDraws (1 / 20)) (playing 0 0)))) = Bad
   \<and> singleDrawKind (playing 0 0) (powerU (topDraws (1 / 20))) = Good
   \<and> singleDrawKind (playing 0 0) (badU (topDraws (1 / 20))) = Power"
  by (simp add: spawnOrb_def spawnKind_def singleDrawKind_def difficulty_def topDraws_def
      playing_def startGame_def initial_def Let_def)

text \<open>
  Claim C8, amended: a spawned orb's kind is determined by two successive uniform draws,
  evaluated hierarchically: power if the first draw is below powerChance, else bad if the
  second draw is below badShare, else good.
\<close>

theorem spawn_kind_two_draws:
  "orbs (spawnOrb r (Some rc) now d s) = orbs s @ [last (orbs (spawnOrb r (Some rc) now d s))]
   \<and> kind (last (orbs (spawnOrb r (Some rc) now d s)))
      = (if powerU d < powerChance (difficulty r) then Power
         else if badU d < badShare (difficulty r) then Bad else Good)"
  by (simp add: spawnOrb_def spawnKind_def Let_def)

theorem spawn_kind_two_draws_witness:
  "kind (last (orbs (spawnOrb (playing 0 0) (Some rc400) 0 (topDraws (1 / 2)) (playing 0 0)))) = Good"
  using spawn_kind_two_draws [of "playing 0 0" rc400 0 "topDraws (1 / 2)" "playing 0 0"]
  by (simp add: difficulty_def topDraws_def playing_def startGame_def initial_def Let_def)

subsection \<open>The multiplier\<close>

lemma award_mult [simp]: "mult (award r ms s) = mult s"
  by (induction ms arbitrary: s) simp_all

lemma award_streak [simp]: "streak (award r ms s) = streak s"
  by (induction ms arbitrary: s) simp_all

lemma handleCollect_multInv: "multInv s \<Longrightarrow> multInv (handleCollect r ob c s)"
  by (simp add: multInv_def handleCollect_def collectGood_def collectPower_def toast_def Let_def)

lemma collisions_multInv: "multInv s \<Longrightarrow> multInv (collisions r rc p rolls k cs s)"
proof (induction cs arbitrary: s k)
  case Nil
  then show ?case by simp
next
  case (Cons c cs)
  let ?s' = "handleCollect r c (rolls k) s"
  have a: "multInv (endGame r s)" by (simp add: multInv_def endGame_def)
  have "multInv ?s'" using Cons.prems by (rule handleCollect_multInv)
  then have "multInv (?s'\<lparr>orbs := filter (\<lambda>x. orb_id x \<noteq> orb_id c) (orbs ?s')\<rparr>)"
    by (simp add: multInv_def)
  then have b: "multInv (collisions r rc p rolls (if kind c = Power then Suc k else k) cs
      (?s'\<lparr>orbs := filter (\<lambda>x. orb_id x \<noteq> orb_id c) (orbs ?s')\<rparr>))"
    by (rule Cons.IH)
  have c: "multInv (collisions r rc p rolls k cs s)" using Cons.prems by (rule Cons.IH)
  show ?case using a b c by (simp add: Let_def)
qed

lemma timers_multInv [simp]: "multInv (timers r dt s) = multInv s"
  by (simp add: timers_def multInv_def Let_def)

lemma spawnOrb_multInv [simp]: "multInv (spawnOrb r a now d s) = multInv s"
  by (simp add: spawnOrb_def multInv_def Let_def split: option.splits)

lemma tick_multInv: "multInv s \<Longrightarrow> multInv (tick r fr s)"
proof (cases "arena fr")
  case None
  assume "multInv s"
  with None show ?thesis by (simp add: tick_def)
next
  case (Some rc)
  assume i: "multInv s"
  define s2 where "s2 = (if spawnRoll fr < spawnRate (difficulty r) * frameDt s fr
           then spawnOrb r (arena fr) (clock fr) (draws fr) (timers r (frameDt s fr) (s\<lparr>lastTs := Some (ts fr)\<rparr>))
           else timers r (frameDt s fr) (s\<lparr>lastTs := Some (ts fr)\<rparr>))"
  define s3 where "s3 = s2\<lparr>orbs := moveLoop (frameMove r rc fr s) (clock fr) (orbs s2)\<rparr>"
  have t: "tick r fr s = collisions r rc (pxPos rc (player r)) (powerRolls fr) 0 (orbs s3) s3"
    using Some by (simp add: tick_def Let_def s3_def s2_def)
  have "multInv (s\<lparr>lastTs := Some (ts fr)\<rparr>)" using i by (simp add: multInv_def)
  then have "multInv s2" by (simp add: s2_def)
  then have "multInv s3" by (simp add: s3_def multInv_def)
  then show ?thesis unfolding t by (rule collisions_multInv)
qed

lemma toFixed1_fifths:
  assumes "0 \<le> k"
  shows "toFixed1 (1 + of_int k * (2 / 10)) = 1 + of_int k * (2 / 10)"
proof -
  have nn: "\<not> (1 + real_of_int k * (2 / 10) < 0)" using assms by simp
  have "\<lfloor>(1 + real_of_int k * (2 / 10)) * 10 + 1 / 2\<rfloor> = 10 + 2 * k"
    by (simp add: floor_eq_iff algebra_simps)
  then show ?thesis using nn by (simp add: toFixed1_def algebra_simps)
qed

lemma streakMult_multInv: "multInv r \<Longrightarrow> multInv s \<Longrightarrow> multInv (streakMult r s)"
proof -
  assume r: "multInv r" and s: "multInv s"
  define k where "k = \<lfloor>streak r / 25\<rfloor>"
  have k0: "0 \<le> k" using r by (simp add: k_def multInv_def)
  have "streak r / 25 \<le> 4" using r by (simp add: multInv_def)
  then have "k \<le> \<lfloor>4::real\<rfloor>" unfolding k_def by (rule floor_mono)
  then have k4: "k \<le> 4" by simp
  have "streakMult r s = s\<lparr>mult := clamp (toFixed1 (1 + of_int k * (2 / 10))) 1 4\<rparr>"
    by (simp only: streakMult_def Let_def k_def)
  then have m: "streakMult r s = s\<lparr>mult := clamp (1 + of_int k * (2 / 10)) 1 4\<rparr>"
    by (simp only: toFixed1_fifths [OF k0])
  have "real_of_int k \<le> 4" and "0 \<le> real_of_int k" using k0 k4 by simp_all
  then have "1 \<le> clamp (1 + of_int k * (2 / 10)) 1 4 \<and> clamp (1 + of_int k * (2 / 10)) 1 4 \<le> 9 / 5"
    by (simp add: clamp_def)
  then show ?thesis using s unfolding m by (simp add: multInv_def)
qed

lemma decay_multInv: "multInv s \<Longrightarrow> multInv (decay s)"
proof -
  assume s: "multInv s"
  then have "mult s * (995 / 1000) \<le> 9 / 5" by (simp add: multInv_def)
  then have "1 \<le> clamp (mult s * (995 / 1000)) 1 5 \<and> clamp (mult s * (995 / 1000)) 1 5 \<le> 9 / 5"
    by (simp add: clamp_def max_def min_def)
  then show ?thesis using s by (simp add: multInv_def decay_def Let_def max_def)
qed

lemma commit_multInv [simp]: "multInv (commit s s') = multInv s'"
  by (simp add: commit_def multInv_def)

lemma handle_multInv: "multInv s \<Longrightarrow> multInv (handle e s)"
proof (cases e)
  case (AnimationFrame fr)
  assume "multInv s"
  then show ?thesis using AnimationFrame by (simp add: tick_multInv)
next
  case DecayInterval
  assume "multInv s"
  then show ?thesis using DecayInterval by (simp add: decay_multInv)
next
  case StreakEffect
  assume "multInv s"
  then show ?thesis using StreakEffect by (simp add: streakMult_multInv)
qed (simp_all add: multInv_def startGame_def shareScore_def toast_def onDown_def onMove_def
      Let_def split: clip_cap.splits)

lemma step_multInv: "multInv s \<Longrightarrow> multInv (step e s)"
  by (simp add: step_def handle_multInv)

lemma run_multInv: "multInv s \<Longrightarrow> multInv (run evs s)"
  by (induction evs arbitrary: s) (simp_all add: step_multInv)

text \<open>The largest streak gives the multiplier 1.8.\<close>

lemma streakMult_at_100: "streak r = 100 \<Longrightarrow> mult (streakMult r s) = 9 / 5"
  by (simp add: streakMult_def toFixed1_def clamp_def Let_def)

text \<open>
  Claim C10: in every state reached from the initial state the multiplier lies between 1
  and 1.8: the start and the end of a run set it to 1, the value derived from the streak
  is at most 1 + 4 * 0.2 because the streak stays within 0 and 100, and the decay
  multiplies it by 0.995 and clamps it at 1 from below. The caps 4 and 5 of the two clamps
  are never reached.
\<close>

theorem mult_between_1_and_1_8:
  "1 \<le> mult (run evs (initial b)) \<and> mult (run evs (initial b)) \<le> 9 / 5"
proof -
  have "multInv (initial b)" by (simp add: multInv_def initial_def)
  then have "multInv (run evs (initial b))" by (rule run_multInv)
  then show ?thesis by (simp add: multInv_def)
qed

theorem mult_between_1_and_1_8_witness:
  "mult (run (spawnedRun @ [DecayInterval, StreakEffect]) (initial NoEntry)) = 1"
  using mult_between_1_and_1_8 [of "spawnedRun @ [DecayInterval, StreakEffect]" NoEntry]
  by (simp add: run_append spawned_run)
     (simp add: afterSpawn_def startGame_def initial_def decay_def streakMult_def
        toFixed1_def clamp_def Let_def step_def commit_def loopDeps_def)

end
